theory Spec2Isabelle
  imports Complex_Main
begin

section \<open>Python values and errors\<close>

text \<open>
  The options of a schedule are numbers: Python integers (unbounded) or floats. A float is
  modelled by the real number it denotes, so a literal such as \<^verbatim>\<open>1e-4\<close> is
  \<open>PyFloat (1 / 10000)\<close>, and arithmetic on floats is exact: rounding and overflow are
  outside the model.
\<close>

datatype pyval = PyInt int | PyFloat real

datatype py_error = ValueError string | ZeroDivisionError | KeyError string

fun py_real :: "pyval \<Rightarrow> real" where
  "py_real (PyInt i) = real_of_int i"
| "py_real (PyFloat r) = r"

text \<open>\<^verbatim>\<open>a * b\<close>, \<^verbatim>\<open>a + b\<close>: an integer when both operands are, a float otherwise.\<close>

fun py_mul :: "pyval \<Rightarrow> pyval \<Rightarrow> pyval" where
  "py_mul (PyInt a) (PyInt b) = PyInt (a * b)"
| "py_mul a b = PyFloat (py_real a * py_real b)"

fun py_add :: "pyval \<Rightarrow> pyval \<Rightarrow> pyval" where
  "py_add (PyInt a) (PyInt b) = PyInt (a + b)"
| "py_add a b = PyFloat (py_real a + py_real b)"

text \<open>\<^verbatim>\<open>a ** i\<close> for an exponent \<open>i\<close> from \<^verbatim>\<open>range(5)\<close>, a non-negative integer.\<close>

fun py_pow :: "pyval \<Rightarrow> nat \<Rightarrow> pyval" where
  "py_pow (PyInt a) i = PyInt (a ^ i)"
| "py_pow (PyFloat r) i = PyFloat (r ^ i)"

text \<open>The builtin \<^verbatim>\<open>sum\<close>: starts from the integer 0 and adds from the left.\<close>

definition py_sum :: "pyval list \<Rightarrow> pyval" where
  "py_sum xs = foldl py_add (PyInt 0) xs"

text \<open>\<^verbatim>\<open>a // b\<close> on integers: floor division, ZeroDivisionError for a zero divisor.\<close>

definition py_floordiv :: "int \<Rightarrow> int \<Rightarrow> py_error + int" where
  "py_floordiv a b = (if b = 0 then Inl ZeroDivisionError else Inr (a div b))"

definition bind_err :: "'e + 'a \<Rightarrow> ('a \<Rightarrow> 'e + 'b) \<Rightarrow> 'e + 'b" where
  "bind_err m f = (case m of Inl e \<Rightarrow> Inl e | Inr x \<Rightarrow> f x)"

section \<open>Strings\<close>

text \<open>
  \<^verbatim>\<open>str.lower()\<close> on the code points below 256, which is what \<^typ>\<open>char\<close> holds:
  the ASCII capitals and the Latin-1 capitals (192 to 222 but for the multiplication sign
  215) move up by 32, every other character stays.
\<close>

definition lower_char :: "char \<Rightarrow> char" where
  "lower_char c =
     (let n = (of_char c :: nat)
      in if (65 \<le> n \<and> n \<le> 90) \<or> (192 \<le> n \<and> n \<le> 222 \<and> n \<noteq> 215)
         then char_of (n + 32) else c)"

definition lower :: "string \<Rightarrow> string" where
  "lower s = map lower_char s"

text \<open>
  Comparison of two strings without regard to the case of the ASCII letters: the strings
  have the same length and, position by position, the same character or the capital and
  the small form of one letter.
\<close>

definition is_ascii_upper :: "char \<Rightarrow> bool" where
  "is_ascii_upper c \<longleftrightarrow> 65 \<le> (of_char c :: nat) \<and> (of_char c :: nat) \<le> 90"

definition same_letter :: "char \<Rightarrow> char \<Rightarrow> bool" where
  "same_letter a b \<longleftrightarrow>
     a = b \<or> (is_ascii_upper a \<and> (of_char b :: nat) = of_char a + 32)
           \<or> (is_ascii_upper b \<and> (of_char a :: nat) = of_char b + 32)"

definition eq_ignore_case :: "string \<Rightarrow> string \<Rightarrow> bool" where
  "eq_ignore_case s t = list_all2 same_letter s t"



section \<open>The schedule_args dictionary\<close>

type_synonym config = "string \<rightharpoonup> pyval"

text \<open>\<^verbatim>\<open>if k not in schedule_args: schedule_args[k] = v\<close>\<close>

definition set_default :: "string \<Rightarrow> pyval \<Rightarrow> config \<Rightarrow> config" where
  "set_default k v d = (case d k of None \<Rightarrow> d(k \<mapsto> v) | Some _ \<Rightarrow> d)"

text \<open>\<^verbatim>\<open>{}\<close>\<close>

definition empty_dict :: config where
  "empty_dict = Map.empty"

text \<open>The value supplied under a key, or else the given default: \<^verbatim>\<open>d.get(k, v)\<close>.\<close>

definition get_or :: "config \<Rightarrow> string \<Rightarrow> pyval \<Rightarrow> pyval" where
  "get_or d k v = (case d k of None \<Rightarrow> v | Some x \<Rightarrow> x)"

text \<open>\<^verbatim>\<open>schedule_args[k]\<close>\<close>

definition getitem :: "config \<Rightarrow> string \<Rightarrow> py_error + pyval" where
  "getitem d k = (case d k of None \<Rightarrow> Inl (KeyError k) | Some v \<Rightarrow> Inr v)"

section \<open>Callbacks\<close>

text \<open>
  The callback classes come from Keras and from the modules \<^verbatim>\<open>clr_callback\<close> and
  \<^verbatim>\<open>sgdr_callback\<close>. A callback object is modelled by the arguments it was constructed
  from, in the order and under the names of the call in \<^verbatim>\<open>get_lr_schedule\<close>.
\<close>

datatype callback =
    ReduceLROnPlateau (monitor: string) (patience: pyval) (epsilon: real) (min_lr: pyval)
      (verbose: bool)
  | SGDR (sgdr_min_lr: pyval) (sgdr_max_lr: pyval) (sgdr_base_len: pyval) (sgdr_mul: pyval)
  | CyclicLR (clr_min_lr: pyval) (clr_max_lr: pyval) (clr_step_size: pyval) (mode: string)
  | LearningRateScheduler (scheduler: "int \<Rightarrow> real")

section \<open>get_lr_schedule\<close>

definition resnet_scheduler :: "int \<Rightarrow> real" where
  "resnet_scheduler epoch =
     (if epoch \<ge> 120 then 1 / 1000
      else if epoch \<ge> 80 then 1 / 100
      else if epoch \<ge> 1 then 1 / 10
      else 1 / 100)"

text \<open>
  The function returns its result, or the exception it raised, together with the
  dictionary \<^verbatim>\<open>schedule_args\<close> as the call leaves it: the source writes the defaults
  into the dictionary it was given.
\<close>

definition get_lr_schedule ::
  "string \<Rightarrow> int \<Rightarrow> int \<Rightarrow> config \<Rightarrow> (py_error + callback list \<times> pyval) \<times> config" where
  "get_lr_schedule schedule num_samples batch_size schedule_args =
     (if lower schedule = ''sgd'' then
        (let args1 = set_default ''sgd_patience'' (PyInt 10) schedule_args;
             args2 = set_default ''sgd_min_lr'' (PyFloat (1 / 10000)) args1
         in (bind_err (getitem args2 ''sgd_patience'') (\<lambda>p.
             bind_err (getitem args2 ''sgd_min_lr'') (\<lambda>m.
               Inr ([ReduceLROnPlateau ''val_loss'' p (1 / 10000) m True], PyInt 200))),
             args2))
      else if lower schedule = ''sgdr'' then
        (let args1 = set_default ''sgdr_base_len'' (PyInt 12) schedule_args;
             args2 = set_default ''sgdr_mul'' (PyInt 2) args1;
             args3 = set_default ''sgdr_max_lr'' (PyFloat (1 / 10)) args2
         in (bind_err (getitem args3 ''sgdr_max_lr'') (\<lambda>mx.
             bind_err (getitem args3 ''sgdr_base_len'') (\<lambda>b.
             bind_err (getitem args3 ''sgdr_mul'') (\<lambda>m.
               Inr ([SGDR (PyFloat (1 / 1000000)) mx b m],
                    py_sum (map (\<lambda>i. py_mul b (py_pow m i)) [0..<5]))))),
             args3))
      else if lower schedule = ''clr'' then
        (let args1 = set_default ''clr_step_len'' (PyInt 12) schedule_args;
             args2 = set_default ''clr_min_lr'' (PyFloat (1 / 100000)) args1;
             args3 = set_default ''clr_max_lr'' (PyFloat (1 / 10)) args2
         in (bind_err (getitem args3 ''clr_min_lr'') (\<lambda>mn.
             bind_err (getitem args3 ''clr_max_lr'') (\<lambda>mx.
             bind_err (getitem args3 ''clr_step_len'') (\<lambda>s.
             bind_err (py_floordiv num_samples batch_size) (\<lambda>q.
               Inr ([CyclicLR mn mx (py_mul s (PyInt q)) ''triangular''],
                    py_mul s (PyInt 20)))))),
             args3))
      else if lower schedule = ''resnet-schedule'' then
        (Inr ([LearningRateScheduler resnet_scheduler], PyInt 164), schedule_args)
      else
        (Inl (ValueError (''Unknown learning rate schedule: '' @ schedule)), schedule_args))"

subsection \<open>The dictionary as an object\<close>

text \<open>
  A dictionary is an object: the caller and \<^verbatim>\<open>get_lr_schedule\<close> hold references to the
  same one. The heap maps a reference to the dictionary stored there. The default value
  \<^verbatim>\<open>schedule_args = {}\<close> is evaluated once, when the \<^verbatim>\<open>def\<close> statement runs, so every
  call without the fourth argument receives the same reference \<open>default_schedule_args\<close>.
\<close>

type_synonym ref = nat
type_synonym heap = "ref \<Rightarrow> config"

definition default_schedule_args :: ref where
  "default_schedule_args = 0"

text \<open>The heap right after the \<^verbatim>\<open>def\<close> statement: every dictionary is empty.\<close>

definition initial_heap :: heap where
  "initial_heap = (\<lambda>r. empty_dict)"

definition call_get_lr_schedule ::
  "string \<Rightarrow> int \<Rightarrow> int \<Rightarrow> ref option \<Rightarrow> heap \<Rightarrow> (py_error + callback list \<times> pyval) \<times> heap" where
  "call_get_lr_schedule schedule num_samples batch_size arg h =
     (let r = (case arg of None \<Rightarrow> default_schedule_args | Some a \<Rightarrow> a);
          res = get_lr_schedule schedule num_samples batch_size (h r)
      in (fst res, h(r := snd res)))"

section \<open>Tensors\<close>

text \<open>
  A vector is the list of its entries and a matrix the list of its rows; the entries are
  real numbers, so the backend's arithmetic is taken as exact. The binary operators of the
  backend broadcast: along each axis the two extents must agree or one of them must be 1,
  and an operand of extent 1 is repeated; any other pair of extents is an error. A list of
  rows does not record the row length of a matrix without rows, so the results below are
  stated for positive extents.
\<close>

type_synonym vec = "real list"
type_synonym mat = "real list list"

datatype tensor_error = IncompatibleShapes | EmptyReduction

definition nrows :: "mat \<Rightarrow> nat" where
  "nrows m = length m"

definition ncols :: "mat \<Rightarrow> nat" where
  "ncols m = (case m of [] \<Rightarrow> 0 | r # _ \<Rightarrow> length r)"

definition is_matrix :: "nat \<Rightarrow> nat \<Rightarrow> mat \<Rightarrow> bool" where
  "is_matrix n d m \<longleftrightarrow> length m = n \<and> list_all (\<lambda>r. length r = d) m"

definition broadcast1 :: "(real \<Rightarrow> real \<Rightarrow> real) \<Rightarrow> vec \<Rightarrow> vec \<Rightarrow> tensor_error + vec" where
  "broadcast1 f a b =
     (if length a = length b then Inr (map2 f a b)
      else if length a = 1 then Inr (map (\<lambda>y. f (hd a) y) b)
      else if length b = 1 then Inr (map (\<lambda>x. f x (hd b)) a)
      else Inl IncompatibleShapes)"

definition broadcast2 :: "(real \<Rightarrow> real \<Rightarrow> real) \<Rightarrow> mat \<Rightarrow> mat \<Rightarrow> tensor_error + mat" where
  "broadcast2 f A B =
     (let ra = nrows A; ca = ncols A; rb = nrows B; cb = ncols B
      in if (ra = rb \<or> ra = 1 \<or> rb = 1) \<and> (ca = cb \<or> ca = 1 \<or> cb = 1)
         then Inr (map (\<lambda>i. map (\<lambda>j.
                      f (A ! (if ra = 1 then 0 else i) ! (if ca = 1 then 0 else j))
                        (B ! (if rb = 1 then 0 else i) ! (if cb = 1 then 0 else j)))
                    [0..<(if ca = 1 then cb else ca)])
                  [0..<(if ra = 1 then rb else ra)])
         else Inl IncompatibleShapes)"

text \<open>\<^verbatim>\<open>m.T\<close>\<close>

definition mat_T :: "mat \<Rightarrow> mat" where
  "mat_T m = map (\<lambda>j. map (\<lambda>r. r ! j) m) [0..<ncols m]"

text \<open>\<^verbatim>\<open>K.square(m)\<close>, \<^verbatim>\<open>m ** 2\<close>\<close>

definition square :: "mat \<Rightarrow> mat" where
  "square m = map (map (\<lambda>x. x\<^sup>2)) m"

text \<open>\<^verbatim>\<open>m.sum(axis = 0, keepdims = True)\<close>\<close>

definition sum_axis0_keepdims :: "mat \<Rightarrow> mat" where
  "sum_axis0_keepdims m = [map (\<lambda>j. sum_list (map (\<lambda>r. r ! j) m)) [0..<ncols m]]"

text \<open>\<^verbatim>\<open>K.sum(m, axis = 1, keepdims = True)\<close>\<close>

definition sum_axis1_keepdims :: "mat \<Rightarrow> mat" where
  "sum_axis1_keepdims m = map (\<lambda>r. [sum_list r]) m"

text \<open>\<^verbatim>\<open>K.sum(m, axis = -1)\<close>\<close>

definition sum_last_axis :: "mat \<Rightarrow> vec" where
  "sum_last_axis m = map sum_list m"

text \<open>\<^verbatim>\<open>K.dot(A, B)\<close>: the matrix product, defined when the inner extents agree.\<close>

definition dot :: "mat \<Rightarrow> mat \<Rightarrow> tensor_error + mat" where
  "dot A B =
     (if ncols A = nrows B
      then Inr (map (\<lambda>r. map (\<lambda>j. sum_list (map2 (\<lambda>x br. x * br ! j) r B)) [0..<ncols B]) A)
      else Inl IncompatibleShapes)"

text \<open>\<^verbatim>\<open>c * m\<close> for a scalar \<open>c\<close>\<close>

definition scale :: "real \<Rightarrow> mat \<Rightarrow> mat" where
  "scale c m = map (map (\<lambda>x. c * x)) m"

text \<open>
  \<^verbatim>\<open>K.min(m, axis = -1)\<close>. The minimum of a row without entries is not a real number
  (the backend has the float infinity there), so the model stops with an error.
\<close>

definition min_last_axis :: "mat \<Rightarrow> tensor_error + vec" where
  "min_last_axis m =
     (if list_all (\<lambda>r. r \<noteq> []) m then Inr (map (\<lambda>r. fold min (tl r) (hd r)) m)
      else Inl EmptyReduction)"

section \<open>Distances and the nearest-centroid accuracy\<close>

text \<open>\<^verbatim>\<open>squared_distance\<close> on one pair of vectors.\<close>

definition squared_distance :: "vec \<Rightarrow> vec \<Rightarrow> tensor_error + real" where
  "squared_distance y_true y_pred =
     bind_err (broadcast1 (\<lambda>x y. x - y) y_pred y_true) (\<lambda>d.
       Inr (sum_list (map (\<lambda>x. x\<^sup>2) d)))"

text \<open>Lines 34 to 37 of \<^verbatim>\<open>nn_accuracy\<close>: the matrix \<^verbatim>\<open>dist\<close>.\<close>

definition nn_dist :: "mat \<Rightarrow> mat \<Rightarrow> tensor_error + mat" where
  "nn_dist embedding y_pred =
     (let centroids = mat_T embedding;
          centroids_norm = sum_axis0_keepdims (square (mat_T embedding));
          pred_norm = sum_axis1_keepdims (square y_pred)
      in bind_err (broadcast2 (\<lambda>x y. x + y) pred_norm centroids_norm) (\<lambda>norms.
         bind_err (dot y_pred centroids) (\<lambda>prod.
           broadcast2 (\<lambda>x y. x - y) norms (scale 2 prod))))"

text \<open>Line 39: \<^verbatim>\<open>true_dist\<close>.\<close>

definition nn_true_dist :: "mat \<Rightarrow> mat \<Rightarrow> tensor_error + vec" where
  "nn_true_dist y_true y_pred =
     bind_err (broadcast2 (\<lambda>x y. x - y) y_pred y_true) (\<lambda>d.
       Inr (sum_last_axis (square d)))"

text \<open>
  The inner function of \<^verbatim>\<open>nn_accuracy(embedding)\<close> on a batch: \<^verbatim>\<open>K.less\<close> and the
  cast to the float type give 1 where the comparison holds and 0 elsewhere.
\<close>

definition nn_accuracy :: "mat \<Rightarrow> mat \<Rightarrow> mat \<Rightarrow> tensor_error + vec" where
  "nn_accuracy embedding y_true y_pred =
     bind_err (nn_dist embedding y_pred) (\<lambda>dist.
     bind_err (nn_true_dist y_true y_pred) (\<lambda>true_dist.
     bind_err (min_last_axis dist) (\<lambda>min_dist.
     bind_err (broadcast1 (\<lambda>x y. x - y) true_dist min_dist) (\<lambda>d.
       Inr (map (\<lambda>x. if \<bar>x\<bar> < 1 / 1000000 then 1 else 0) d)))))"

section \<open>Matrices as tables\<close>

text \<open>
  On a matrix of known extents every operation of the backend is a table of its entries.
\<close>

lemma is_matrix_length: "is_matrix n d m \<Longrightarrow> length m = n"
  by (simp add: is_matrix_def)

lemma is_matrix_row: "is_matrix n d m \<Longrightarrow> i < n \<Longrightarrow> length (m ! i) = d"
  by (simp add: is_matrix_def list_all_length)

lemma is_matrix_nrows: "is_matrix n d m \<Longrightarrow> nrows m = n"
  by (simp add: is_matrix_def nrows_def)

lemma is_matrix_ncols: "is_matrix n d m \<Longrightarrow> 0 < n \<Longrightarrow> ncols m = d"
  by (cases m) (simp_all add: is_matrix_def ncols_def)

lemma is_matrix_tabulate: "is_matrix n d (map (\<lambda>i. map (f i) [0..<d]) [0..<n])"
  by (simp add: is_matrix_def list_all_length)

lemma map_index: "map f xs = map (\<lambda>i. f (xs ! i)) [0..<length xs]"
  by (rule nth_equalityI) simp_all

lemma sum_list_upt: "sum_list (map f [0..<n]) = (\<Sum>i<n. f i)"
  by (simp add: interv_sum_list_conv_sum_set_nat atLeast0LessThan)

lemma sum_list_index: "sum_list (map f xs) = (\<Sum>i<length xs. f (xs ! i))"
  using sum_list_upt [of "\<lambda>i. f (xs ! i)" "length xs"] map_index [of f xs] by simp

lemma sum_list_map2_index:
  "length xs = length ys \<Longrightarrow> sum_list (map2 f xs ys) = (\<Sum>i<length xs. f (xs ! i) (ys ! i))"
proof -
  assume len: "length xs = length ys"
  have "map2 f xs ys = map (\<lambda>i. f (xs ! i) (ys ! i)) [0..<length xs]"
    using len by (intro nth_equalityI) simp_all
  then show ?thesis by (simp add: sum_list_upt)
qed

lemma mat_T_tabulate:
  assumes "is_matrix n d m" and "0 < n"
  shows "mat_T m = map (\<lambda>j. map (\<lambda>i. m ! i ! j) [0..<n]) [0..<d]"
  using assms
  by (intro nth_equalityI) (simp_all add: mat_T_def is_matrix_ncols is_matrix_length)

lemma square_tabulate:
  assumes "is_matrix n d m"
  shows "square m = map (\<lambda>i. map (\<lambda>j. (m ! i ! j)\<^sup>2) [0..<d]) [0..<n]"
  using assms
  by (intro nth_equalityI) (simp_all add: square_def is_matrix_length is_matrix_row)


lemma sum_axis0_keepdims_tabulate:
  assumes "is_matrix n d m" and "0 < n"
  shows "sum_axis0_keepdims m = [map (\<lambda>j. \<Sum>i<n. m ! i ! j) [0..<d]]"
  using assms sum_list_index [of "\<lambda>r. r ! j" m for j]
  by (simp add: sum_axis0_keepdims_def is_matrix_ncols is_matrix_length)

lemma sum_axis1_keepdims_tabulate:
  assumes "is_matrix n d m"
  shows "sum_axis1_keepdims m = map (\<lambda>i. [\<Sum>j<d. m ! i ! j]) [0..<n]"
  using assms sum_list_index [of "\<lambda>x. x" "m ! i" for i]
  by (intro nth_equalityI) (simp_all add: sum_axis1_keepdims_def is_matrix_length is_matrix_row)

lemma sum_last_axis_tabulate:
  assumes "is_matrix n d m"
  shows "sum_last_axis m = map (\<lambda>i. \<Sum>j<d. m ! i ! j) [0..<n]"
  using assms sum_list_index [of "\<lambda>x. x" "m ! i" for i]
  by (intro nth_equalityI) (simp_all add: sum_last_axis_def is_matrix_length is_matrix_row)

lemma dot_tabulate:
  assumes A: "is_matrix n d A" and B: "is_matrix d c B" and "0 < n" and "0 < d"
  shows "dot A B = Inr (map (\<lambda>i. map (\<lambda>k. \<Sum>j<d. A ! i ! j * B ! j ! k) [0..<c]) [0..<n])"
proof -
  have "map (\<lambda>r. map (\<lambda>k. sum_list (map2 (\<lambda>x br. x * br ! k) r B)) [0..<c]) A
      = map (\<lambda>i. map (\<lambda>k. \<Sum>j<d. A ! i ! j * B ! j ! k) [0..<c]) [0..<n]"
  proof (rule nth_equalityI)
    show "length (map (\<lambda>r. map (\<lambda>k. sum_list (map2 (\<lambda>x br. x * br ! k) r B)) [0..<c]) A)
        = length (map (\<lambda>i. map (\<lambda>k. \<Sum>j<d. A ! i ! j * B ! j ! k) [0..<c]) [0..<n])"
      using A by (simp add: is_matrix_length)
  next
    fix i
    assume "i < length (map (\<lambda>r. map (\<lambda>k. sum_list (map2 (\<lambda>x br. x * br ! k) r B)) [0..<c]) A)"
    then have i: "i < n" using A by (simp add: is_matrix_length)
    then have len: "length (A ! i) = length B"
      using A B by (simp add: is_matrix_length is_matrix_row)
    have "sum_list (map2 (\<lambda>x br. x * br ! k) (A ! i) B) = (\<Sum>j<d. A ! i ! j * B ! j ! k)" for k
      using sum_list_map2_index [OF len, of "\<lambda>x br. x * br ! k"] A i
      by (simp add: is_matrix_row)
    then show "map (\<lambda>r. map (\<lambda>k. sum_list (map2 (\<lambda>x br. x * br ! k) r B)) [0..<c]) A ! i
        = map (\<lambda>i. map (\<lambda>k. \<Sum>j<d. A ! i ! j * B ! j ! k) [0..<c]) [0..<n] ! i"
      using i A by (simp add: is_matrix_length)
  qed
  then show ?thesis
    using assms by (simp add: dot_def is_matrix_ncols is_matrix_nrows)
qed

lemma broadcast2_col_row:
  assumes "0 < n" and "0 < c"
  shows "broadcast2 f (map (\<lambda>i. [a i]) [0..<n]) [map b [0..<c]]
       = Inr (map (\<lambda>i. map (\<lambda>k. f (a i) (b k)) [0..<c]) [0..<n])"
proof -
  have A: "is_matrix n 1 (map (\<lambda>i. [a i]) [0..<n])"
    by (simp add: is_matrix_def list_all_length)
  have B: "is_matrix 1 c [map b [0..<c]]"
    by (simp add: is_matrix_def)
  show ?thesis
    using assms is_matrix_ncols [OF A] is_matrix_nrows [OF A]
      is_matrix_ncols [OF B] is_matrix_nrows [OF B]
    by (auto simp add: broadcast2_def Let_def)
qed

lemma broadcast2_same:
  assumes A: "is_matrix n c A" and B: "is_matrix n c B" and "0 < n"
  shows "broadcast2 f A B = Inr (map (\<lambda>i. map (\<lambda>k. f (A ! i ! k) (B ! i ! k)) [0..<c]) [0..<n])"
  using assms(3) is_matrix_ncols [OF A] is_matrix_nrows [OF A]
      is_matrix_ncols [OF B] is_matrix_nrows [OF B]
  by (auto simp add: broadcast2_def Let_def)


lemma square_of_tabulate:
  "square (map (\<lambda>i. map (f i) [0..<d]) [0..<n]) = map (\<lambda>i. map (\<lambda>j. (f i j)\<^sup>2) [0..<d]) [0..<n]"
  by (simp add: square_def)

lemma scale_of_tabulate:
  "scale c (map (\<lambda>i. map (f i) [0..<d]) [0..<n]) = map (\<lambda>i. map (\<lambda>j. c * f i j) [0..<d]) [0..<n]"
  by (simp add: scale_def)

lemma sum_axis0_keepdims_of_tabulate:
  assumes "0 < n"
  shows "sum_axis0_keepdims (map (\<lambda>i. map (f i) [0..<d]) [0..<n]) = [map (\<lambda>j. \<Sum>i<n. f i j) [0..<d]]"
  by (simp add: sum_axis0_keepdims_tabulate [OF is_matrix_tabulate assms])

lemma sum_axis1_keepdims_of_tabulate:
  "sum_axis1_keepdims (map (\<lambda>i. map (f i) [0..<d]) [0..<n]) = map (\<lambda>i. [\<Sum>j<d. f i j]) [0..<n]"
  by (simp add: sum_axis1_keepdims_tabulate [OF is_matrix_tabulate])

lemma sum_last_axis_of_tabulate:
  "sum_last_axis (map (\<lambda>i. map (f i) [0..<d]) [0..<n]) = map (\<lambda>i. \<Sum>j<d. f i j) [0..<n]"
  by (simp add: sum_last_axis_tabulate [OF is_matrix_tabulate])

lemma broadcast2_of_tabulate:
  assumes "0 < n"
  shows "broadcast2 f (map (\<lambda>i. map (a i) [0..<c]) [0..<n]) (map (\<lambda>i. map (b i) [0..<c]) [0..<n])
       = Inr (map (\<lambda>i. map (\<lambda>k. f (a i k) (b i k)) [0..<c]) [0..<n])"
  by (simp add: broadcast2_same [OF is_matrix_tabulate is_matrix_tabulate assms])

lemma dot_T_tabulate:
  assumes E: "is_matrix c d E" and P: "is_matrix n d P" and "0 < c" and "0 < d" and "0 < n"
  shows "dot P (mat_T E) = Inr (map (\<lambda>i. map (\<lambda>k. \<Sum>j<d. P ! i ! j * E ! k ! j) [0..<c]) [0..<n])"
proof -
  have T: "mat_T E = map (\<lambda>j. map (\<lambda>k. E ! k ! j) [0..<c]) [0..<d]"
    using E \<open>0 < c\<close> by (rule mat_T_tabulate)
  have "is_matrix d c (mat_T E)"
    unfolding T by (rule is_matrix_tabulate)
  from dot_tabulate [OF P this \<open>0 < n\<close> \<open>0 < d\<close>] show ?thesis
    by (simp add: T)
qed

lemma nn_dist_tabulate:
  assumes E: "is_matrix c d embedding" and P: "is_matrix n d y_pred"
    and "0 < c" and "0 < d" and "0 < n"
  shows "nn_dist embedding y_pred =
     Inr (map (\<lambda>i. map (\<lambda>k. (\<Sum>j<d. (y_pred ! i ! j)\<^sup>2) + (\<Sum>j<d. (embedding ! k ! j)\<^sup>2)
                             - 2 * (\<Sum>j<d. y_pred ! i ! j * embedding ! k ! j)) [0..<c]) [0..<n])"
proof -
  have T: "mat_T embedding = map (\<lambda>j. map (\<lambda>k. embedding ! k ! j) [0..<c]) [0..<d]"
    using E \<open>0 < c\<close> by (rule mat_T_tabulate)
  have cn: "sum_axis0_keepdims (square (mat_T embedding))
      = [map (\<lambda>k. \<Sum>j<d. (embedding ! k ! j)\<^sup>2) [0..<c]]"
    using \<open>0 < d\<close> by (simp only: T square_of_tabulate sum_axis0_keepdims_of_tabulate)
  have pn: "sum_axis1_keepdims (square y_pred) = map (\<lambda>i. [\<Sum>j<d. (y_pred ! i ! j)\<^sup>2]) [0..<n]"
    by (simp only: square_tabulate [OF P] sum_axis1_keepdims_of_tabulate)
  have norms: "broadcast2 (\<lambda>x y. x + y) (sum_axis1_keepdims (square y_pred))
        (sum_axis0_keepdims (square (mat_T embedding)))
      = Inr (map (\<lambda>i. map (\<lambda>k. (\<Sum>j<d. (y_pred ! i ! j)\<^sup>2) + (\<Sum>j<d. (embedding ! k ! j)\<^sup>2)) [0..<c]) [0..<n])"
    unfolding cn pn using \<open>0 < n\<close> \<open>0 < c\<close> by (rule broadcast2_col_row)
  have prod: "dot y_pred (mat_T embedding)
      = Inr (map (\<lambda>i. map (\<lambda>k. \<Sum>j<d. y_pred ! i ! j * embedding ! k ! j) [0..<c]) [0..<n])"
    using assms by (rule dot_T_tabulate)
  show ?thesis
    using \<open>0 < n\<close>
    by (simp add: nn_dist_def Let_def norms prod bind_err_def scale_of_tabulate broadcast2_of_tabulate)
qed





lemma fold_min_Min: "r \<noteq> [] \<Longrightarrow> fold min (tl r) (hd r) = Min (set r)"
  by (cases r) (simp_all add: Min.set_eq_fold [symmetric])

lemma min_last_axis_of_tabulate:
  assumes "0 < c"
  shows "min_last_axis (map (\<lambda>i. map (f i) [0..<c]) [0..<n]) = Inr (map (\<lambda>i. Min (f i ` {..<c})) [0..<n])"
proof -
  have "fold min (tl (map (f i) [0..<c])) (hd (map (f i) [0..<c])) = Min (f i ` {..<c})" for i
    using assms fold_min_Min [of "map (f i) [0..<c]"] by (simp add: atLeast0LessThan)
  then show ?thesis
    using assms by (simp add: min_last_axis_def list_all_length comp_def)
qed


section \<open>The nearest-centroid accuracy\<close>





subsection \<open>Operands of unequal extents\<close>

lemma broadcast1_of_tabulate:
  "broadcast1 f (map a [0..<n]) (map b [0..<n]) = Inr (map (\<lambda>i. f (a i) (b i)) [0..<n])"
proof -
  have "map2 f (map a [0..<n]) (map b [0..<n]) = map (\<lambda>i. f (a i) (b i)) [0..<n]"
    by (intro nth_equalityI) simp_all
  then show ?thesis
    by (simp add: broadcast1_def)
qed

lemma broadcast2_columns:
  assumes A: "is_matrix n d A" and B: "is_matrix n d' B" and "0 < n"
  shows "broadcast2 f A B =
     (if d = d' \<or> d = 1 \<or> d' = 1
      then Inr (map (\<lambda>i. map (\<lambda>j. f (A ! i ! (if d = 1 then 0 else j))
                                     (B ! i ! (if d' = 1 then 0 else j)))
                            [0..<(if d = 1 then d' else d)]) [0..<n])
      else Inl IncompatibleShapes)"
  using assms(3) is_matrix_ncols [OF A] is_matrix_nrows [OF A]
      is_matrix_ncols [OF B] is_matrix_nrows [OF B]
  by (auto simp add: broadcast2_def Let_def)

lemma nn_true_dist_columns:
  assumes T: "is_matrix n d' y_true" and P: "is_matrix n d y_pred" and "0 < n"
  shows "nn_true_dist y_true y_pred =
     (if d = d' \<or> d = 1 \<or> d' = 1
      then Inr (map (\<lambda>i. \<Sum>j<(if d = 1 then d' else d).
                  (y_pred ! i ! (if d = 1 then 0 else j) - y_true ! i ! (if d' = 1 then 0 else j))\<^sup>2)
                [0..<n])
      else Inl IncompatibleShapes)"
  by (simp add: nn_true_dist_def bind_err_def broadcast2_columns [OF P T \<open>0 < n\<close>]
      square_of_tabulate sum_last_axis_of_tabulate)

lemma squared_distance_unequal:
  assumes "length y_true \<noteq> length y_pred"
  shows "squared_distance y_true y_pred =
     (if length y_pred = 1 then Inr (\<Sum>j<length y_true. (y_pred ! 0 - y_true ! j)\<^sup>2)
      else if length y_true = 1 then Inr (\<Sum>j<length y_pred. (y_pred ! j - y_true ! 0)\<^sup>2)
      else Inl IncompatibleShapes)"
proof -
  have hd_pred: "hd y_pred = y_pred ! 0" if "length y_pred = 1"
    using that by (cases y_pred) simp_all
  have hd_true: "hd y_true = y_true ! 0" if "length y_true = 1"
    using that by (cases y_true) simp_all
  have p: "map (\<lambda>y. (hd y_pred - y)\<^sup>2) y_true = map (\<lambda>j. (y_pred ! 0 - y_true ! j)\<^sup>2) [0..<length y_true]"
    if "length y_pred = 1"
    using hd_pred [OF that] by (intro nth_equalityI) simp_all
  have t: "map (\<lambda>x. (x - hd y_true)\<^sup>2) y_pred = map (\<lambda>j. (y_pred ! j - y_true ! 0)\<^sup>2) [0..<length y_pred]"
    if "length y_true = 1"
    using hd_true [OF that] by (intro nth_equalityI) simp_all
  show ?thesis
    using assms p t
    by (auto simp add: squared_distance_def broadcast1_def bind_err_def comp_def sum_list_upt
        simp del: One_nat_def)
qed

text \<open>
  Claim C9, as the code has it. For two vectors of unequal lengths \<^verbatim>\<open>squared_distance\<close>
  fails, with the shape error of the backend, exactly when neither length is 1; a vector
  of length 1 is broadcast against the other one and a value is returned. The classifier
  does the same with true embeddings whose row length differs from that of the
  predictions.
\<close>

theorem unequal_lengths_broadcast_or_fail:
  assumes "length y_true \<noteq> length y_pred"
    and "is_matrix c d embedding" and "is_matrix n d preds" and "is_matrix n d' trues"
    and "0 < c" and "0 < d" and "0 < n" and "d' \<noteq> d"
  shows "(squared_distance y_true y_pred = Inl IncompatibleShapes
            \<longleftrightarrow> length y_true \<noteq> 1 \<and> length y_pred \<noteq> 1)
     \<and> (length y_true = 1 \<longrightarrow>
          squared_distance y_true y_pred = Inr (\<Sum>j<length y_pred. (y_pred ! j - y_true ! 0)\<^sup>2))
     \<and> (length y_pred = 1 \<longrightarrow>
          squared_distance y_true y_pred = Inr (\<Sum>j<length y_true. (y_pred ! 0 - y_true ! j)\<^sup>2))
     \<and> (nn_accuracy embedding trues preds = Inl IncompatibleShapes \<longleftrightarrow> d' \<noteq> 1 \<and> d \<noteq> 1)
     \<and> (d' = 1 \<or> d = 1 \<longrightarrow>
          (\<exists>acc. nn_accuracy embedding trues preds = Inr acc \<and> length acc = n))"
proof -
  have sd: "(squared_distance y_true y_pred = Inl IncompatibleShapes
            \<longleftrightarrow> length y_true \<noteq> 1 \<and> length y_pred \<noteq> 1)
     \<and> (length y_true = 1 \<longrightarrow>
          squared_distance y_true y_pred = Inr (\<Sum>j<length y_pred. (y_pred ! j - y_true ! 0)\<^sup>2))
     \<and> (length y_pred = 1 \<longrightarrow>
          squared_distance y_true y_pred = Inr (\<Sum>j<length y_true. (y_pred ! 0 - y_true ! j)\<^sup>2))"
    using assms(1) by (auto simp add: squared_distance_unequal [OF assms(1)])
  have nn: "(nn_accuracy embedding trues preds = Inl IncompatibleShapes \<longleftrightarrow> d' \<noteq> 1 \<and> d \<noteq> 1)
     \<and> (d' = 1 \<or> d = 1 \<longrightarrow>
          (\<exists>acc. nn_accuracy embedding trues preds = Inr acc \<and> length acc = n))"
    using \<open>0 < c\<close> \<open>d' \<noteq> d\<close>
    by (auto simp add: nn_accuracy_def bind_err_def
        nn_dist_tabulate [OF assms(2,3) \<open>0 < c\<close> \<open>0 < d\<close> \<open>0 < n\<close>]
        nn_true_dist_columns [OF assms(4,3) \<open>0 < n\<close>] min_last_axis_of_tabulate
        broadcast1_of_tabulate)
  from sd nn show ?thesis by blast
qed

theorem unequal_lengths_broadcast_or_fail_witness:
  "length [1 :: real] \<noteq> length [1, 2, 3 :: real]
   \<and> is_matrix 2 2 [[0, 0], [10, 10]] \<and> is_matrix 1 2 [[1, 2]] \<and> is_matrix 1 1 [[0]]
   \<and> squared_distance [1] [1, 2, 3] = Inr 5
   \<and> nn_accuracy [[0, 0], [10, 10]] [[0]] [[1, 2]] = Inr [1]"
proof -
  have l: "length [1 :: real] \<noteq> length [1, 2, 3 :: real]"
    by simp
  have E: "is_matrix 2 2 [[0, 0], [10, 10]]" and P: "is_matrix 1 2 [[1, 2]]"
    and T: "is_matrix 1 1 [[0]]"
    by (simp_all add: is_matrix_def)
  have pos: "(0::nat) < 2" "(0::nat) < 1" "(1::nat) \<noteq> 2"
    by simp_all
  note inst = unequal_lengths_broadcast_or_fail [OF l E P T pos(1) pos(1) pos(2) pos(3)]
  have "squared_distance [1] [1, 2, 3] = Inr 5"
    using inst by (simp add: lessThan_Suc numeral_eq_Suc)
  moreover have "nn_accuracy [[0, 0], [10, 10]] [[0]] [[1, 2]] = Inr [1]"
    using inst
    by (simp add: nn_accuracy_def nn_dist_def nn_true_dist_def bind_err_def broadcast1_def
        broadcast2_def mat_T_def square_def sum_axis0_keepdims_def sum_axis1_keepdims_def
        sum_last_axis_def dot_def scale_def min_last_axis_def nrows_def ncols_def upt_rec
        power2_eq_square)
  ultimately show ?thesis
    using l E P T by simp
qed

text \<open>
  The claim C9 as stated fails: the true vector has one entry and the prediction three,
  and \<^verbatim>\<open>squared_distance\<close> returns 5.
\<close>

theorem squared_distance_broadcasts:
  "squared_distance [1] [1, 2, 3] = Inr 5"
  by (simp add: squared_distance_def broadcast1_def bind_err_def)

section \<open>Names, dictionaries and Python arithmetic\<close>

lemma of_char_less_256: "(of_char c :: nat) < 256"
  by (cases c) simp

lemma of_char_lower_char:
  "(of_char (lower_char c) :: nat) =
     (if (65 \<le> (of_char c :: nat) \<and> (of_char c :: nat) \<le> 90)
         \<or> (192 \<le> (of_char c :: nat) \<and> (of_char c :: nat) \<le> 222 \<and> (of_char c :: nat) \<noteq> 215)
      then of_char c + 32 else of_char c)"
  using of_char_less_256 [of c] by (auto simp add: lower_char_def Let_def)

lemma lower_char_eq_iff:
  assumes "(of_char c :: nat) < 128"
  shows "lower_char a = lower_char c \<longleftrightarrow> same_letter a c"
proof -
  have "lower_char a = lower_char c \<longleftrightarrow> (of_char (lower_char a) :: nat) = of_char (lower_char c)"
    by simp
  also have "\<dots> \<longleftrightarrow> same_letter a c"
    using assms by (auto simp add: of_char_lower_char same_letter_def is_ascii_upper_def)
  finally show ?thesis .
qed

lemma lower_eq_iff:
  assumes "list_all (\<lambda>c. (of_char c :: nat) < 128) t"
  shows "lower s = lower t \<longleftrightarrow> eq_ignore_case s t"
  using assms
proof (induction t arbitrary: s)
  case Nil
  then show ?case by (simp add: lower_def eq_ignore_case_def)
next
  case (Cons c t)
  show ?case
  proof (cases s)
    case Nil
    then show ?thesis by (simp add: lower_def eq_ignore_case_def)
  next
    case (Cons a s')
    have "lower s' = lower t \<longleftrightarrow> eq_ignore_case s' t"
      using Cons.IH Cons.prems by simp
    moreover have "lower_char a = lower_char c \<longleftrightarrow> same_letter a c"
      using Cons.prems by (simp add: lower_char_eq_iff)
    ultimately show ?thesis
      using Cons by (simp add: lower_def eq_ignore_case_def)
  qed
qed

lemma lower_SGD: "lower ''SGD'' = ''sgd''"
  by (simp add: lower_def lower_char_def char_of_def bit_Suc_0_iff)

lemma lower_SGDR: "lower ''SGDR'' = ''sgdr''"
  by (simp add: lower_def lower_char_def char_of_def bit_Suc_0_iff)

lemma lower_CLR: "lower ''CLR'' = ''clr''"
  by (simp add: lower_def lower_char_def char_of_def bit_Suc_0_iff)

lemma lower_ResNet_Schedule: "lower ''ResNet-Schedule'' = ''resnet-schedule''"
  by (simp add: lower_def lower_char_def char_of_def bit_Suc_0_iff)

lemma eq_ignore_case_SGD: "eq_ignore_case s ''SGD'' \<longleftrightarrow> lower s = ''sgd''"
  using lower_eq_iff [of "''SGD''" s] by (simp add: lower_SGD)

lemma eq_ignore_case_SGDR: "eq_ignore_case s ''SGDR'' \<longleftrightarrow> lower s = ''sgdr''"
  using lower_eq_iff [of "''SGDR''" s] by (simp add: lower_SGDR)

lemma eq_ignore_case_CLR: "eq_ignore_case s ''CLR'' \<longleftrightarrow> lower s = ''clr''"
  using lower_eq_iff [of "''CLR''" s] by (simp add: lower_CLR)



lemma getitem_set_default_same: "getitem (set_default k v d) k = Inr (get_or d k v)"
  by (simp add: getitem_def set_default_def get_or_def split: option.split)

lemma getitem_set_default_other: "k \<noteq> k' \<Longrightarrow> getitem (set_default k' v d) k = getitem d k"
  by (simp add: getitem_def set_default_def split: option.split)

lemma get_or_set_default_other: "k \<noteq> k' \<Longrightarrow> get_or (set_default k' v d) k w = get_or d k w"
  by (simp add: get_or_def set_default_def split: option.split)

lemma set_default_same: "set_default k v d k = Some (get_or d k v)"
  by (simp add: set_default_def get_or_def split: option.split)

lemma set_default_other: "k \<noteq> k' \<Longrightarrow> set_default k' v d k = d k"
  by (simp add: set_default_def split: option.split)

lemma set_default_keeps: "d k = Some x \<Longrightarrow> set_default k' v d k = Some x"
  by (cases "k = k'") (auto simp add: set_default_def split: option.split)

lemma get_lr_schedule_sgd:
  assumes "lower schedule = ''sgd''"
  shows "get_lr_schedule schedule num_samples batch_size d =
     (Inr ([ReduceLROnPlateau ''val_loss'' (get_or d ''sgd_patience'' (PyInt 10)) (1 / 10000)
              (get_or d ''sgd_min_lr'' (PyFloat (1 / 10000))) True], PyInt 200),
      set_default ''sgd_min_lr'' (PyFloat (1 / 10000)) (set_default ''sgd_patience'' (PyInt 10) d))"
  using assms
  by (simp add: get_lr_schedule_def Let_def bind_err_def getitem_set_default_same
      getitem_set_default_other get_or_set_default_other)

lemma get_lr_schedule_sgdr:
  assumes "lower schedule = ''sgdr''"
  shows "get_lr_schedule schedule num_samples batch_size d =
     (Inr ([SGDR (PyFloat (1 / 1000000)) (get_or d ''sgdr_max_lr'' (PyFloat (1 / 10)))
              (get_or d ''sgdr_base_len'' (PyInt 12)) (get_or d ''sgdr_mul'' (PyInt 2))],
           py_sum (map (\<lambda>i. py_mul (get_or d ''sgdr_base_len'' (PyInt 12))
                                (py_pow (get_or d ''sgdr_mul'' (PyInt 2)) i)) [0..<5])),
      set_default ''sgdr_max_lr'' (PyFloat (1 / 10))
        (set_default ''sgdr_mul'' (PyInt 2) (set_default ''sgdr_base_len'' (PyInt 12) d)))"
  using assms
  by (simp add: get_lr_schedule_def Let_def bind_err_def getitem_set_default_same
      getitem_set_default_other get_or_set_default_other)

lemma get_lr_schedule_clr:
  assumes "lower schedule = ''clr''"
  shows "get_lr_schedule schedule num_samples batch_size d =
     ((if batch_size = 0 then Inl ZeroDivisionError
       else Inr ([CyclicLR (get_or d ''clr_min_lr'' (PyFloat (1 / 100000)))
                   (get_or d ''clr_max_lr'' (PyFloat (1 / 10)))
                   (py_mul (get_or d ''clr_step_len'' (PyInt 12)) (PyInt (num_samples div batch_size)))
                   ''triangular''],
                 py_mul (get_or d ''clr_step_len'' (PyInt 12)) (PyInt 20))),
      set_default ''clr_max_lr'' (PyFloat (1 / 10))
        (set_default ''clr_min_lr'' (PyFloat (1 / 100000)) (set_default ''clr_step_len'' (PyInt 12) d)))"
  using assms
  by (simp add: get_lr_schedule_def Let_def bind_err_def getitem_set_default_same
      getitem_set_default_other get_or_set_default_other py_floordiv_def)

lemma get_lr_schedule_resnet:
  assumes "lower schedule = ''resnet-schedule''"
  shows "get_lr_schedule schedule num_samples batch_size d =
     (Inr ([LearningRateScheduler resnet_scheduler], PyInt 164), d)"
  using assms by (simp add: get_lr_schedule_def)







lemma foldl_add_ints: "foldl py_add (PyInt a) (map (\<lambda>i. PyInt (f i)) xs) = PyInt (a + sum_list (map f xs))"
  by (induction xs arbitrary: a) simp_all

lemma py_sum_ints: "py_sum (map (\<lambda>i. PyInt (f i)) [0..<n]) = PyInt (\<Sum>i<n. f i)"
  using sum_list_upt [of f n] by (simp add: py_sum_def foldl_add_ints)

section \<open>The schedule factory\<close>

lemma call_get_lr_schedule_default:
  "snd (call_get_lr_schedule schedule ns bs None h) default_schedule_args
     = snd (get_lr_schedule schedule ns bs (h default_schedule_args))"
  by (simp add: call_get_lr_schedule_def Let_def)

lemma get_lr_schedule_keeps:
  assumes "d k = Some x"
  shows "snd (get_lr_schedule schedule ns bs d) k = Some x"
  using assms by (simp add: get_lr_schedule_def Let_def set_default_keeps)

text \<open>
  Claim C3. For every epoch \<open>e \<ge> 0\<close> the rate function of the ResNet schedule returns 0.01
  for \<open>e = 0\<close>, 0.1 for \<open>1 \<le> e < 80\<close>, 0.01 for \<open>80 \<le> e < 120\<close> and 0.001 for
  \<open>e \<ge> 120\<close>, so its value is one of 0.01, 0.1 and 0.001; it is the function that the
  factory hands to the scheduler callback under the name ResNet-Schedule.
\<close>

theorem resnet_scheduler_rate:
  assumes "0 \<le> epoch"
  shows "resnet_scheduler epoch =
           (if epoch = 0 then 1 / 100 else if epoch < 80 then 1 / 10
            else if epoch < 120 then 1 / 100 else 1 / 1000)
       \<and> resnet_scheduler epoch \<in> {1 / 100, 1 / 10, 1 / 1000}
       \<and> fst (get_lr_schedule ''ResNet-Schedule'' num_samples batch_size d)
           = Inr ([LearningRateScheduler resnet_scheduler], PyInt 164)"
  using assms by (auto simp add: resnet_scheduler_def get_lr_schedule_resnet lower_ResNet_Schedule)

theorem resnet_scheduler_rate_witness:
  "resnet_scheduler 0 = 1 / 100 \<and> resnet_scheduler 1 = 1 / 10 \<and> resnet_scheduler 79 = 1 / 10
   \<and> resnet_scheduler 80 = 1 / 100 \<and> resnet_scheduler 119 = 1 / 100
   \<and> resnet_scheduler 120 = 1 / 1000"
  using resnet_scheduler_rate [of 0] resnet_scheduler_rate [of 1] resnet_scheduler_rate [of 79]
    resnet_scheduler_rate [of 80] resnet_scheduler_rate [of 119] resnet_scheduler_rate [of 120]
  by simp



text \<open>
  Claim C5. Under the name CLR and with a positive batch size the factory constructs the
  cyclic schedule with the step size \<open>step_len * \<lfloor>num_samples / batch_size\<rfloor>\<close> and
  returns the horizon \<open>step_len * 20\<close>, where \<open>step_len\<close> is the supplied option or its
  default 12.
\<close>

theorem clr_step_size_and_horizon:
  assumes "eq_ignore_case schedule ''CLR''" and "0 < batch_size"
  shows "fst (get_lr_schedule schedule num_samples batch_size d) =
     Inr ([CyclicLR (get_or d ''clr_min_lr'' (PyFloat (1 / 100000)))
             (get_or d ''clr_max_lr'' (PyFloat (1 / 10)))
             (py_mul (get_or d ''clr_step_len'' (PyInt 12))
                (PyInt \<lfloor>real_of_int num_samples / real_of_int batch_size\<rfloor>))
             ''triangular''],
          py_mul (get_or d ''clr_step_len'' (PyInt 12)) (PyInt 20))
     \<and> (\<forall>s. get_or d ''clr_step_len'' (PyInt 12) = PyInt s \<longrightarrow>
          (\<exists>mn mx. fst (get_lr_schedule schedule num_samples batch_size d) =
             Inr ([CyclicLR mn mx (PyInt (s * \<lfloor>real_of_int num_samples / real_of_int batch_size\<rfloor>))
                     ''triangular''], PyInt (s * 20))))"
proof -
  have low: "lower schedule = ''clr''"
    using assms(1) by (simp add: eq_ignore_case_CLR)
  show ?thesis
    using assms(2) by (simp add: get_lr_schedule_clr [OF low] floor_divide_of_int_eq)
qed

theorem clr_step_size_and_horizon_witness:
  "eq_ignore_case ''clr'' ''CLR'' \<and> (0::int) < 128
   \<and> fst (get_lr_schedule ''clr'' 50000 128 empty_dict)
       = Inr ([CyclicLR (PyFloat (1 / 100000)) (PyFloat (1 / 10)) (PyInt 4680) ''triangular''],
              PyInt 240)"
proof -
  have h: "eq_ignore_case ''clr'' ''CLR''"
    by (simp add: eq_ignore_case_def same_letter_def is_ascii_upper_def)
  have b: "(0::int) < 128"
    by simp
  have "\<lfloor>real_of_int 50000 / real_of_int 128\<rfloor> = (390::int)"
    by (simp add: floor_divide_of_int_eq)
  then have "fst (get_lr_schedule ''clr'' 50000 128 empty_dict)
       = Inr ([CyclicLR (PyFloat (1 / 100000)) (PyFloat (1 / 10)) (PyInt 4680) ''triangular''],
              PyInt 240)"
    using clr_step_size_and_horizon [OF h b, of 50000 empty_dict]
    by (simp add: get_or_def empty_dict_def)
  with h b show ?thesis by simp
qed

text \<open>
  Claim C6. An option absent from the configuration takes its default and a supplied
  option is used as it is: the plateau schedule is built with the patience (default 10)
  and the minimal rate (default 1e-4), the warm-restart schedule with the fixed floor 1e-6,
  the maximal rate (default 0.1), the base length (default 12) and the multiplier
  (default 2), and the cyclic schedule from the step length (default 12), which the call
  also leaves in the dictionary.
\<close>

theorem defaults_filled:
  "(eq_ignore_case schedule ''SGD'' \<longrightarrow>
      fst (get_lr_schedule schedule num_samples batch_size d) =
        Inr ([ReduceLROnPlateau ''val_loss'' (get_or d ''sgd_patience'' (PyInt 10)) (1 / 10000)
                (get_or d ''sgd_min_lr'' (PyFloat (1 / 10000))) True], PyInt 200))
   \<and> (eq_ignore_case schedule ''SGDR'' \<longrightarrow>
      (\<exists>horizon. fst (get_lr_schedule schedule num_samples batch_size d) =
        Inr ([SGDR (PyFloat (1 / 1000000)) (get_or d ''sgdr_max_lr'' (PyFloat (1 / 10)))
                (get_or d ''sgdr_base_len'' (PyInt 12)) (get_or d ''sgdr_mul'' (PyInt 2))],
             horizon)))
   \<and> (eq_ignore_case schedule ''CLR'' \<and> batch_size \<noteq> 0 \<longrightarrow>
      (\<exists>mn mx. fst (get_lr_schedule schedule num_samples batch_size d) =
        Inr ([CyclicLR mn mx
                (py_mul (get_or d ''clr_step_len'' (PyInt 12)) (PyInt (num_samples div batch_size)))
                ''triangular''],
             py_mul (get_or d ''clr_step_len'' (PyInt 12)) (PyInt 20))))
   \<and> (eq_ignore_case schedule ''CLR'' \<longrightarrow>
      snd (get_lr_schedule schedule num_samples batch_size d) ''clr_step_len''
        = Some (get_or d ''clr_step_len'' (PyInt 12)))
   \<and> (\<forall>k v x. (d k = None \<longrightarrow> get_or d k v = v) \<and> (d k = Some x \<longrightarrow> get_or d k v = x))"
proof -
  have "eq_ignore_case schedule ''CLR'' \<Longrightarrow>
      snd (get_lr_schedule schedule num_samples batch_size d) ''clr_step_len''
        = Some (get_or d ''clr_step_len'' (PyInt 12))"
    by (simp add: eq_ignore_case_CLR get_lr_schedule_clr set_default_same set_default_other)
  then show ?thesis
    by (simp add: eq_ignore_case_SGD eq_ignore_case_SGDR eq_ignore_case_CLR get_lr_schedule_sgd
        get_lr_schedule_sgdr get_lr_schedule_clr get_or_def)
qed

theorem defaults_filled_witness:
  "eq_ignore_case ''sgd'' ''SGD''
   \<and> fst (get_lr_schedule ''sgd'' 50000 128 (empty_dict(''sgd_patience'' \<mapsto> PyInt 5)))
       = Inr ([ReduceLROnPlateau ''val_loss'' (PyInt 5) (1 / 10000) (PyFloat (1 / 10000)) True],
              PyInt 200)
   \<and> eq_ignore_case ''sgdr'' ''SGDR''
   \<and> fst (get_lr_schedule ''sgdr'' 50000 128 (empty_dict(''sgdr_mul'' \<mapsto> PyInt 3)))
       = Inr ([SGDR (PyFloat (1 / 1000000)) (PyFloat (1 / 10)) (PyInt 12) (PyInt 3)], PyInt 1452)
   \<and> eq_ignore_case ''clr'' ''CLR''
   \<and> snd (get_lr_schedule ''clr'' 50000 128 empty_dict) ''clr_step_len'' = Some (PyInt 12)"
proof -
  have h: "eq_ignore_case ''sgd'' ''SGD''" "eq_ignore_case ''sgdr'' ''SGDR''"
    "eq_ignore_case ''clr'' ''CLR''"
    by (simp_all add: eq_ignore_case_def same_letter_def is_ascii_upper_def)
  have five: "(\<Sum>i<5. (12::int) * 3 ^ i) = 1452"
    by (simp add: numeral_eq_Suc)
  have sgd: "fst (get_lr_schedule ''sgd'' 50000 128 (empty_dict(''sgd_patience'' \<mapsto> PyInt 5)))
       = Inr ([ReduceLROnPlateau ''val_loss'' (PyInt 5) (1 / 10000) (PyFloat (1 / 10000)) True],
              PyInt 200)"
    using h(1) defaults_filled [of "''sgd''" 50000 128 "empty_dict(''sgd_patience'' \<mapsto> PyInt 5)"]
    by (simp add: get_or_def empty_dict_def)
  have sgdr: "fst (get_lr_schedule ''sgdr'' 50000 128 (empty_dict(''sgdr_mul'' \<mapsto> PyInt 3)))
       = Inr ([SGDR (PyFloat (1 / 1000000)) (PyFloat (1 / 10)) (PyInt 12) (PyInt 3)], PyInt 1452)"
    using h(2) five defaults_filled [of "''sgdr''" 50000 128 "empty_dict(''sgdr_mul'' \<mapsto> PyInt 3)"]
    by (auto simp add: get_lr_schedule_sgdr eq_ignore_case_SGDR get_or_def empty_dict_def py_sum_ints)
  have clr: "snd (get_lr_schedule ''clr'' 50000 128 empty_dict) ''clr_step_len'' = Some (PyInt 12)"
    using h(3) defaults_filled [of "''clr''" 50000 128 empty_dict]
    by (simp add: get_or_def empty_dict_def)
  from h sgd sgdr clr show ?thesis by simp
qed







lemma call_get_lr_schedule_target:
  "snd (call_get_lr_schedule schedule ns bs arg h) (case arg of None \<Rightarrow> default_schedule_args | Some a \<Rightarrow> a)
     = snd (get_lr_schedule schedule ns bs (h (case arg of None \<Rightarrow> default_schedule_args | Some a \<Rightarrow> a)))"
  by (simp add: call_get_lr_schedule_def Let_def)

lemma call_get_lr_schedule_result:
  "fst (call_get_lr_schedule schedule ns bs arg h)
     = fst (get_lr_schedule schedule ns bs (h (case arg of None \<Rightarrow> default_schedule_args | Some a \<Rightarrow> a)))"
  by (simp add: call_get_lr_schedule_def Let_def)

text \<open>
  Claim C10. A call writes the defaults of the chosen schedule into the dictionary it was
  given: after the call the dictionary at the reference \<open>r\<close> holds, under every defaulted
  key, the value it held before or else the default, and it keeps every entry it had. A
  call without the fourth argument does this to the one dictionary at
  \<open>default_schedule_args\<close>, and the next such call starts from the dictionary left there,
  so that the entries written by the first call are still present after the second.
\<close>

theorem defaults_written_into_dictionary:
  assumes "r = (case arg of None \<Rightarrow> default_schedule_args | Some a \<Rightarrow> a)"
    and "h' = snd (call_get_lr_schedule schedule num_samples batch_size arg h)"
  shows "(eq_ignore_case schedule ''SGD'' \<longrightarrow>
            h' r ''sgd_patience'' = Some (get_or (h r) ''sgd_patience'' (PyInt 10))
          \<and> h' r ''sgd_min_lr'' = Some (get_or (h r) ''sgd_min_lr'' (PyFloat (1 / 10000))))
     \<and> (eq_ignore_case schedule ''SGDR'' \<longrightarrow>
            h' r ''sgdr_base_len'' = Some (get_or (h r) ''sgdr_base_len'' (PyInt 12))
          \<and> h' r ''sgdr_mul'' = Some (get_or (h r) ''sgdr_mul'' (PyInt 2))
          \<and> h' r ''sgdr_max_lr'' = Some (get_or (h r) ''sgdr_max_lr'' (PyFloat (1 / 10))))
     \<and> (eq_ignore_case schedule ''CLR'' \<longrightarrow>
            h' r ''clr_step_len'' = Some (get_or (h r) ''clr_step_len'' (PyInt 12))
          \<and> h' r ''clr_min_lr'' = Some (get_or (h r) ''clr_min_lr'' (PyFloat (1 / 100000)))
          \<and> h' r ''clr_max_lr'' = Some (get_or (h r) ''clr_max_lr'' (PyFloat (1 / 10))))
     \<and> (\<forall>k x. h r k = Some x \<longrightarrow> h' r k = Some x)
     \<and> (\<forall>s2 n2 b2. fst (call_get_lr_schedule s2 n2 b2 None h')
            = fst (get_lr_schedule s2 n2 b2 (h' default_schedule_args)))
     \<and> (\<forall>s2 n2 b2 k x. h' default_schedule_args k = Some x \<longrightarrow>
            snd (call_get_lr_schedule s2 n2 b2 None h') default_schedule_args k = Some x)"
proof -
  have h': "h' r = snd (get_lr_schedule schedule num_samples batch_size (h r))"
    unfolding assms by (rule call_get_lr_schedule_target)
  have sgd: "eq_ignore_case schedule ''SGD'' \<Longrightarrow>
      h' r ''sgd_patience'' = Some (get_or (h r) ''sgd_patience'' (PyInt 10))
      \<and> h' r ''sgd_min_lr'' = Some (get_or (h r) ''sgd_min_lr'' (PyFloat (1 / 10000)))"
    by (simp add: h' eq_ignore_case_SGD get_lr_schedule_sgd set_default_same set_default_other
        get_or_set_default_other)
  have sgdr: "eq_ignore_case schedule ''SGDR'' \<Longrightarrow>
      h' r ''sgdr_base_len'' = Some (get_or (h r) ''sgdr_base_len'' (PyInt 12))
      \<and> h' r ''sgdr_mul'' = Some (get_or (h r) ''sgdr_mul'' (PyInt 2))
      \<and> h' r ''sgdr_max_lr'' = Some (get_or (h r) ''sgdr_max_lr'' (PyFloat (1 / 10)))"
    by (simp add: h' eq_ignore_case_SGDR get_lr_schedule_sgdr set_default_same set_default_other
        get_or_set_default_other)
  have clr: "eq_ignore_case schedule ''CLR'' \<Longrightarrow>
      h' r ''clr_step_len'' = Some (get_or (h r) ''clr_step_len'' (PyInt 12))
      \<and> h' r ''clr_min_lr'' = Some (get_or (h r) ''clr_min_lr'' (PyFloat (1 / 100000)))
      \<and> h' r ''clr_max_lr'' = Some (get_or (h r) ''clr_max_lr'' (PyFloat (1 / 10)))"
    by (simp add: h' eq_ignore_case_CLR get_lr_schedule_clr set_default_same set_default_other
        get_or_set_default_other)
  have keep: "h r k = Some x \<Longrightarrow> h' r k = Some x" for k x
    by (simp add: h' get_lr_schedule_keeps)
  have "next": "fst (call_get_lr_schedule s2 n2 b2 None h')
      = fst (get_lr_schedule s2 n2 b2 (h' default_schedule_args))" for s2 n2 b2
    by (simp add: call_get_lr_schedule_result)
  have later: "h' default_schedule_args k = Some x \<Longrightarrow>
      snd (call_get_lr_schedule s2 n2 b2 None h') default_schedule_args k = Some x" for s2 n2 b2 k x
    by (simp add: call_get_lr_schedule_default get_lr_schedule_keeps)
  from sgd sgdr clr keep "next" later show ?thesis
    by blast
qed

theorem defaults_written_into_dictionary_witness:
  "eq_ignore_case ''SGD'' ''SGD''
   \<and> snd (call_get_lr_schedule ''SGD'' 50000 128 (Some 7) initial_heap) 7 ''sgd_patience''
       = Some (PyInt 10)
   \<and> snd (call_get_lr_schedule ''SGD'' 50000 128 None initial_heap) default_schedule_args
         ''sgd_patience'' = Some (PyInt 10)
   \<and> snd (call_get_lr_schedule ''CLR'' 50000 128 None
            (snd (call_get_lr_schedule ''SGD'' 50000 128 None initial_heap)))
         default_schedule_args ''sgd_patience'' = Some (PyInt 10)"
proof -
  have e: "eq_ignore_case ''SGD'' ''SGD''"
    by (simp add: eq_ignore_case_SGD lower_SGD)
  have a: "snd (call_get_lr_schedule ''SGD'' 50000 128 (Some 7) initial_heap) 7 ''sgd_patience''
       = Some (PyInt 10)"
    using e defaults_written_into_dictionary [of 7 "Some 7" _ "''SGD''" 50000 128 initial_heap, OF _ refl]
    by (simp add: initial_heap_def empty_dict_def get_or_def)
  have b: "snd (call_get_lr_schedule ''SGD'' 50000 128 None initial_heap) default_schedule_args
         ''sgd_patience'' = Some (PyInt 10)"
    using e defaults_written_into_dictionary [of default_schedule_args None _ "''SGD''" 50000 128
        initial_heap, OF _ refl]
    by (simp add: initial_heap_def empty_dict_def get_or_def)
  have c: "snd (call_get_lr_schedule ''CLR'' 50000 128 None
            (snd (call_get_lr_schedule ''SGD'' 50000 128 None initial_heap)))
         default_schedule_args ''sgd_patience'' = Some (PyInt 10)"
    using b defaults_written_into_dictionary [of default_schedule_args None _ "''SGD''" 50000 128
        initial_heap, OF _ refl]
    by simp
  from e a b c show ?thesis by simp
qed

end
